theory Spec2Isabelle
  imports Main "HOL-Library.Monad_Syntax"
begin

section \<open>Python values\<close>

text \<open>
  A Python \<open>str\<close> is modelled as a \<open>string\<close>; one list element stands for one character of
  the Python string, so \<open>take n\<close> is the slice \<open>s[:n]\<close> for \<open>n \<ge> 0\<close>.

  A decoded JSON value (what \<open>response.json()\<close> returns, and the \<open>Any\<close> of
  \<open>dict[str, Any]\<close>) is \<open>None\<close>, a \<open>bool\<close>, an \<open>int\<close>, a \<open>float\<close>, a \<open>str\<close>,
  a \<open>list\<close> or a \<open>dict\<close> with string keys. Floating-point numbers are kept abstract: \<open>'f\<close> is
  the type of Python floats, and every operation on them is a parameter of the model.
  A \<open>dict\<close> is an association list in insertion order, read with \<open>map_of\<close>.
\<close>

datatype 'f json =
    JNull
  | JBool bool
  | JInt int
  | JFloat 'f
  | JStr string
  | JArr "'f json list"
  | JObj "(string \<times> 'f json) list"

text \<open>\<open>d[k] = v\<close> on a dict: replaces the value of an existing key in place, appends a new key.\<close>

fun dict_set :: "'k \<Rightarrow> 'v \<Rightarrow> ('k \<times> 'v) list \<Rightarrow> ('k \<times> 'v) list" where
  "dict_set k v [] = [(k, v)]"
| "dict_set k v (p # ps) = (if fst p = k then (k, v) # ps else p # dict_set k v ps)"

text \<open>\<open>sep.join(xs)\<close>.\<close>

fun str_join :: "string \<Rightarrow> string list \<Rightarrow> string" where
  "str_join sep [] = []"
| "str_join sep [x] = x"
| "str_join sep (x # y # ys) = x @ sep @ str_join sep (y # ys)"

text \<open>\<open>str(n)\<close> of a non-negative and of an arbitrary Python \<open>int\<close>: the decimal numeral.\<close>

definition digit :: "nat \<Rightarrow> char" where
  "digit d = ''0123456789'' ! d"

fun str_nat :: "nat \<Rightarrow> string" where
  "str_nat n = (if n < 10 then [digit n] else str_nat (n div 10) @ [digit (n mod 10)])"

declare str_nat.simps [simp del]

definition str_int :: "int \<Rightarrow> string" where
  "str_int i = (if i < 0 then ''-'' @ str_nat (nat (- i)) else str_nat (nat i))"

text \<open>The slice \<open>xs[:n]\<close> for a Python \<open>int\<close> \<open>n\<close>: a negative \<open>n\<close> counts from the end.\<close>

definition slice_to :: "'a list \<Rightarrow> int \<Rightarrow> 'a list" where
  "slice_to xs n = (if 0 \<le> n then take (nat n) xs else take (length xs - nat (- n)) xs)"

text \<open>\<open>s.rstrip("/")\<close>.\<close>

definition rstrip_slash :: "string \<Rightarrow> string" where
  "rstrip_slash s = rev (dropWhile (\<lambda>c. c = CHR ''/'') (rev s))"

section \<open>Exceptions, requests and observable events\<close>

text \<open>
  An exception is its class, its message (\<open>str(e)\<close>) and its \<open>__cause__\<close>
  (set by \<open>raise ... from e\<close>).
\<close>

datatype exn_kind =
    ValueError
  | TypeError
  | AttributeError
  | OverflowError
  | ValidationError
  | JSONDecodeError
  | HTTPStatusError
  | TimeoutException
  | ConnectError

datatype exn = Exn exn_kind string "exn option"

fun message :: "exn \<Rightarrow> string" where
  "message (Exn k m c) = m"

text \<open>The arguments of \<open>client.get(url, params=params, timeout=timeout)\<close>.\<close>

record request =
  req_url :: string
  req_params :: "(string \<times> string) list"
  req_timeout :: int

record response =
  status_code :: int
  resp_text :: string

text \<open>
  What a call does besides returning: the notices sent to the host's context, the log
  records, and the HTTP requests issued, in the order in which they happen.
\<close>

datatype event =
    CtxInfo string
  | LogInfo string
  | LogError string
  | LogException string
  | HttpGet request

section \<open>The response schema\<close>

record 'f SearxngResult =
  url :: string
  title :: string
  content :: string
  thumbnail :: "'f json"
  engine :: string
  template :: string
  parsed_url :: "string list"
  img_src :: string
  priority :: string
  engines :: "string list"
  positions :: "int list"
  score :: 'f
  category :: string
  published_date :: "'f json"

record 'f SearxngResponse =
  query :: string
  number_of_results :: int
  results :: "'f SearxngResult list"

text \<open>
  The libraries the client calls are parameters of the model:
  \<^item> \<open>http_get\<close> is \<open>httpx.AsyncClient.get\<close>: it raises (timeout, connection failure, ...)
    or returns a response;
  \<^item> \<open>json_loads\<close> is the decoding done by \<open>response.json()\<close>;
  \<^item> \<open>parse_int\<close> and \<open>parse_float\<close> are the schema library's reading of a string as an
    \<open>int\<close> and as a \<open>float\<close> (\<open>None\<close> when the string is not numeric), \<open>float_as_int\<close> is
    its conversion of a float without fractional part to an \<open>int\<close> (\<open>None\<close> for the other
    floats), \<open>int_as_float\<close> its conversion of an \<open>int\<close> to a float (\<open>None\<close> when the
    \<open>int\<close> is beyond the range of floats);
  \<^item> \<open>status_msg\<close>, \<open>validation_msg\<close> and \<open>mapping_msg\<close> are the messages of the exceptions
    the libraries and the interpreter raise.
\<close>

record 'f env =
  http_get :: "request \<Rightarrow> exn + response"
  json_loads :: "string \<Rightarrow> exn + 'f json"
  parse_int :: "string \<Rightarrow> int option"
  parse_float :: "string \<Rightarrow> 'f option"
  float_as_int :: "'f \<Rightarrow> int option"
  int_as_float :: "int \<Rightarrow> 'f option"
  status_msg :: "response \<Rightarrow> string"
  validation_msg :: "'f json \<Rightarrow> string"
  mapping_msg :: "'f json \<Rightarrow> string"

text \<open>
  The models are plain \<open>BaseModel\<close> classes, so the schema library validates in its
  default, lax mode, which converts some values of another class instead of rejecting
  them. On the values a decoded JSON body holds, as the library documents its conversions:
  \<^item> the annotation \<open>str\<close> accepts a string only (numbers are not turned into strings);
  \<^item> the annotation \<open>int\<close> accepts an \<open>int\<close>, a \<open>bool\<close> (as 0 or 1), a float without
    fractional part, and a string that reads as an \<open>int\<close>;
  \<^item> the annotation \<open>float\<close> accepts a float, an \<open>int\<close> within the range of floats, a
    \<open>bool\<close>, and a string that reads as a float;
  \<^item> \<open>None\<close>, a list and a dict are rejected by all three.
  \<open>None\<close> is the rejection.
\<close>

fun str_type :: "'f env \<Rightarrow> 'f json \<Rightarrow> string option" where
  "str_type E (JStr s) = Some s"
| "str_type E _ = None"

fun int_type :: "'f env \<Rightarrow> 'f json \<Rightarrow> int option" where
  "int_type E (JInt i) = Some i"
| "int_type E (JBool b) = Some (if b then 1 else 0)"
| "int_type E (JFloat x) = float_as_int E x"
| "int_type E (JStr s) = parse_int E s"
| "int_type E _ = None"

fun float_type :: "'f env \<Rightarrow> 'f json \<Rightarrow> 'f option" where
  "float_type E (JFloat x) = Some x"
| "float_type E (JInt i) = int_as_float E i"
| "float_type E (JBool b) = int_as_float E (if b then 1 else 0)"
| "float_type E (JStr s) = parse_float E s"
| "float_type E _ = None"

text \<open>A field declared \<open>Field(...)\<close> is required: its key must be there and its value valid.\<close>

definition required :: "('f json \<Rightarrow> 'a option) \<Rightarrow> (string \<times> 'f json) list \<Rightarrow> string \<Rightarrow> 'a option" where
  "required v kv k = (case map_of kv k of None \<Rightarrow> None | Some x \<Rightarrow> v x)"

text \<open>A field declared \<open>Any = Field(None)\<close>: any value, \<open>None\<close> when the key is missing.\<close>

definition optional_any :: "(string \<times> 'f json) list \<Rightarrow> string \<Rightarrow> 'f json" where
  "optional_any kv k = (case map_of kv k of None \<Rightarrow> JNull | Some x \<Rightarrow> x)"

text \<open>The annotation \<open>list[T]\<close>: a list all of whose elements are valid for \<open>T\<close>.\<close>

fun list_type :: "('f json \<Rightarrow> 'a option) \<Rightarrow> 'f json \<Rightarrow> 'a list option" where
  "list_type v (JArr xs) = those (map v xs)"
| "list_type v _ = None"

fun SearxngResult_validate :: "'f env \<Rightarrow> 'f json \<Rightarrow> 'f SearxngResult option" where
  "SearxngResult_validate E (JObj kv) = do {
     v_url \<leftarrow> required (str_type E) kv ''url'';
     v_title \<leftarrow> required (str_type E) kv ''title'';
     v_content \<leftarrow> required (str_type E) kv ''content'';
     v_engine \<leftarrow> required (str_type E) kv ''engine'';
     v_template \<leftarrow> required (str_type E) kv ''template'';
     v_parsed_url \<leftarrow> required (list_type (str_type E)) kv ''parsed_url'';
     v_img_src \<leftarrow> required (str_type E) kv ''img_src'';
     v_priority \<leftarrow> required (str_type E) kv ''priority'';
     v_engines \<leftarrow> required (list_type (str_type E)) kv ''engines'';
     v_positions \<leftarrow> required (list_type (int_type E)) kv ''positions'';
     v_score \<leftarrow> required (float_type E) kv ''score'';
     v_category \<leftarrow> required (str_type E) kv ''category'';
     Some \<lparr> url = v_url, title = v_title, content = v_content,
            thumbnail = optional_any kv ''thumbnail'',
            engine = v_engine, template = v_template, parsed_url = v_parsed_url,
            img_src = v_img_src, priority = v_priority, engines = v_engines,
            positions = v_positions, score = v_score, category = v_category,
            published_date = optional_any kv ''publishedDate'' \<rparr>
   }"
| "SearxngResult_validate E _ = None"

text \<open>
  \<open>SearxngResponse(**json_response)\<close>: \<open>**\<close> raises \<open>TypeError\<close> on a value that is not a
  mapping; the three fields are required, and one invalid result invalidates the response.
\<close>

definition SearxngResponse_init :: "'f env \<Rightarrow> 'f json \<Rightarrow> exn + 'f SearxngResponse" where
  "SearxngResponse_init E json_response =
     (case json_response of
        JObj kv \<Rightarrow>
          (case do {
                  v_query \<leftarrow> required (str_type E) kv ''query'';
                  v_number \<leftarrow> required (int_type E) kv ''number_of_results'';
                  v_results \<leftarrow> required (list_type (SearxngResult_validate E)) kv ''results'';
                  Some \<lparr> query = v_query, number_of_results = v_number, results = v_results \<rparr>
                } of
             None \<Rightarrow> Inl (Exn ValidationError (validation_msg E json_response) None)
           | Some r \<Rightarrow> Inr r)
      | _ \<Rightarrow> Inl (Exn TypeError (mapping_msg E json_response) None))"

section \<open>The client\<close>

record client =
  base_url :: string
  timeout :: int

definition SearxNGClient_init :: "string \<Rightarrow> int \<Rightarrow> client" where
  "SearxNGClient_init b t = \<lparr> base_url = rstrip_slash b, timeout = t \<rparr>"

text \<open>
  The dict \<open>params\<close> of \<open>search\<close>. Each \<open>if x:\<close> tests Python truthiness: \<open>None\<close>, the
  empty list and the empty string are false.
\<close>

definition build_params ::
  "string \<Rightarrow> string list option \<Rightarrow> string option \<Rightarrow> string option \<Rightarrow> (string \<times> string) list" where
  "build_params q categories language time_range =
     (let params = [(''q'', q), (''format'', ''json'')];
          params = (case categories of
                      Some cs \<Rightarrow> if cs \<noteq> [] then dict_set ''categories'' (str_join '','' cs) params
                                 else params
                    | None \<Rightarrow> params);
          params = (case time_range of
                      Some t \<Rightarrow> if t \<noteq> [] then dict_set ''time_range'' t params else params
                    | None \<Rightarrow> params);
          params = (case language of
                      Some l \<Rightarrow> if l \<noteq> [] then dict_set ''language'' l params else params
                    | None \<Rightarrow> params)
      in params)"

text \<open>
  \<open>response.raise_for_status()\<close> of the HTTP library: an \<open>HTTPStatusError\<close> unless the status
  is a success code (2xx).
\<close>

definition raise_for_status :: "'f env \<Rightarrow> response \<Rightarrow> exn option" where
  "raise_for_status E r =
     (if 200 \<le> status_code r \<and> status_code r \<le> 299 then None
      else Some (Exn HTTPStatusError (status_msg E r) None))"

text \<open>The handler \<open>except Exception as e\<close> of \<open>search\<close>.\<close>

definition search_except :: "exn \<Rightarrow> event list \<Rightarrow> (exn + 'a) \<times> event list" where
  "search_except e evs =
     (Inl (Exn ValueError (''Error during search: '' @ message e) (Some e)),
      evs @ [LogException ''Unexpected error occurred''])"

definition search ::
  "'f env \<Rightarrow> client \<Rightarrow> string \<Rightarrow> string list option \<Rightarrow> string option \<Rightarrow> string option
     \<Rightarrow> (exn + 'f SearxngResponse) \<times> event list" where
  "search E self q categories language time_range =
     (let params = build_params q categories language time_range;
          req = \<lparr> req_url = base_url self @ ''/search'', req_params = params,
                  req_timeout = timeout self \<rparr>
      in case http_get E req of
           Inl e \<Rightarrow> search_except e [HttpGet req]
         | Inr resp \<Rightarrow>
             (case raise_for_status E resp of
                Some e \<Rightarrow> search_except e [HttpGet req]
              | None \<Rightarrow>
                  (let evs = [HttpGet req,
                              LogInfo (''Response: '' @ take 100 (resp_text resp) @ ''...'')]
                   in case json_loads E (resp_text resp) of
                        Inl e \<Rightarrow> search_except e evs
                      | Inr json_response \<Rightarrow>
                          (case SearxngResponse_init E json_response of
                             Inl e \<Rightarrow> search_except e evs
                           | Inr r \<Rightarrow> (Inr r, evs)))))"

section \<open>The tool\<close>

text \<open>
  The parameters annotated \<open>Literal[...]\<close> are enumerations: the host validates the
  arguments against the signature before it calls the tool.
\<close>

datatype time_range = Day | Week | Month | Year

fun time_range_token :: "time_range \<Rightarrow> string" where
  "time_range_token Day = ''day''"
| "time_range_token Week = ''week''"
| "time_range_token Month = ''month''"
| "time_range_token Year = ''year''"

datatype result_format = Text | Json

datatype 'f tool_output = OutText string | OutJson "'f SearxngResult list"

text \<open>One entry of the text rendering, and the loop that appends the entries.\<close>

definition text_entry :: "nat \<Rightarrow> 'f SearxngResult \<Rightarrow> string" where
  "text_entry i r =
     str_nat i @ ''. ['' @ title r @ '']('' @ url r @ '')\<newline>   '' @ (take 200 (content r) @ ''...'')"

fun format_loop :: "nat \<Rightarrow> 'f SearxngResult list \<Rightarrow> string list \<Rightarrow> string list" where
  "format_loop i [] formatted_results = formatted_results"
| "format_loop i (r # rs) formatted_results =
     format_loop (i + 1) rs (formatted_results @ [text_entry i r])"

text \<open>The handler \<open>except Exception as e\<close> of \<open>web_search\<close>: log, notify, re-raise.\<close>

definition web_search_except :: "bool \<Rightarrow> exn \<Rightarrow> event list \<Rightarrow> (exn + 'a) \<times> event list" where
  "web_search_except ctx e evs =
     (Inl e,
      evs @ [LogError (''Error during web search: '' @ message e)]
          @ (if ctx then [CtxInfo (''Error during search: '' @ message e)] else []))"

text \<open>
  \<open>web_search\<close>; \<open>ctx\<close> tells whether the host supplied a context, \<open>searxng_client\<close> is the
  module's client, built from the configuration.
\<close>

definition web_search ::
  "'f env \<Rightarrow> client \<Rightarrow> bool \<Rightarrow> string \<Rightarrow> int \<Rightarrow> string list option \<Rightarrow> string option
     \<Rightarrow> time_range option \<Rightarrow> result_format \<Rightarrow> (exn + 'f tool_output) \<times> event list" where
  "web_search E searxng_client ctx q result_count categories language tr result_format =
     (let evs0 = (if ctx then [CtxInfo ''Starting web search...''] else [])
      in if result_count \<le> 0
         then web_search_except ctx
                (Exn ValueError ''result_count must be greater than 0'' None) evs0
         else (case search E searxng_client q categories language (map_option time_range_token tr) of
                 (Inl e, evs) \<Rightarrow> web_search_except ctx e (evs0 @ evs)
               | (Inr resp, evs) \<Rightarrow>
                   (let selected = slice_to (results resp) result_count
                    in case result_format of
                         Json \<Rightarrow> (Inr (OutJson selected), evs0 @ evs)
                       | Text \<Rightarrow>
                           (Inr (OutText (str_join ''\<newline>\<newline>'' (format_loop 1 selected []))),
                            evs0 @ evs))))"

text \<open>The HTTP requests among the events of a call, in order.\<close>

fun requests :: "event list \<Rightarrow> request list" where
  "requests [] = []"
| "requests (HttpGet r # es) = r # requests es"
| "requests (e # es) = requests es"

section \<open>The alternate formatter\<close>

text \<open>
  \<open>format_results\<close> takes a \<open>dict[str, Any]\<close>. What the interpreter does with a value of
  type \<open>Any\<close> is written out for each class of value, with the exception it raises where
  it raises one. The operations on floats, the text of a list or dict and the limit on the
  digits of an \<open>int\<close> converted to text are parameters:
  \<^item> \<open>float_str x\<close> is \<open>str(x)\<close>, \<open>float_fmt2 x\<close> is \<open>format(x, ".2f")\<close>,
    \<open>float_pos x\<close> is \<open>x > 0\<close>, \<open>float_nonzero x\<close> is \<open>bool(x)\<close>;
  \<^item> \<open>float_of_int i\<close> is \<open>float(i)\<close>, \<open>None\<close> when it raises \<open>OverflowError\<close>;
  \<^item> \<open>container_str v\<close> is \<open>str(v)\<close> of a list or dict, or the exception it raises;
  \<^item> \<open>int_max_str_digits\<close> is \<open>sys.get_int_max_str_digits()\<close>: \<open>0\<close> for no limit, 4300
    unless configured.
\<close>

record 'f runtime =
  float_str :: "'f \<Rightarrow> string"
  float_fmt2 :: "'f \<Rightarrow> string"
  float_pos :: "'f \<Rightarrow> bool"
  float_nonzero :: "'f \<Rightarrow> bool"
  float_of_int :: "int \<Rightarrow> 'f option"
  container_str :: "'f json \<Rightarrow> exn_kind + string"
  int_max_str_digits :: nat

text \<open>A step that may raise, followed by the rest of the computation.\<close>

definition on_ok :: "exn_kind + 'a \<Rightarrow> ('a \<Rightarrow> exn_kind + 'b) \<Rightarrow> exn_kind + 'b" where
  "on_ok r f = (case r of Inl e \<Rightarrow> Inl e | Inr x \<Rightarrow> f x)"

text \<open>
  \<open>str(i)\<close> of an \<open>int\<close>: \<open>ValueError\<close> when the numeral has more digits (the sign apart)
  than the limit.
\<close>

definition over_digit_limit :: "'f runtime \<Rightarrow> int \<Rightarrow> bool" where
  "over_digit_limit R i =
     (0 < int_max_str_digits R \<and> int_max_str_digits R < length (str_nat (nat \<bar>i\<bar>)))"

definition int_str :: "'f runtime \<Rightarrow> int \<Rightarrow> exn_kind + string" where
  "int_str R i = (if over_digit_limit R i then Inl ValueError else Inr (str_int i))"

text \<open>\<open>str(v)\<close>, which is what \<open>f"{v}"\<close> inserts.\<close>

fun py_str :: "'f runtime \<Rightarrow> 'f json \<Rightarrow> exn_kind + string" where
  "py_str R JNull = Inr ''None''"
| "py_str R (JBool b) = Inr (if b then ''True'' else ''False'')"
| "py_str R (JInt i) = int_str R i"
| "py_str R (JFloat x) = Inr (float_str R x)"
| "py_str R (JStr s) = Inr s"
| "py_str R (JArr xs) = container_str R (JArr xs)"
| "py_str R (JObj kv) = container_str R (JObj kv)"

text \<open>\<open>bool(v)\<close>: the test of \<open>if not results\<close>.\<close>

fun truthy :: "'f runtime \<Rightarrow> 'f json \<Rightarrow> bool" where
  "truthy R JNull = False"
| "truthy R (JBool b) = b"
| "truthy R (JInt i) = (i \<noteq> 0)"
| "truthy R (JFloat x) = float_nonzero R x"
| "truthy R (JStr s) = (s \<noteq> [])"
| "truthy R (JArr xs) = (xs \<noteq> [])"
| "truthy R (JObj kv) = (kv \<noteq> [])"

text \<open>\<open>v > 0\<close>: a number compares, anything else raises \<open>TypeError\<close>.\<close>

fun py_gt0 :: "'f runtime \<Rightarrow> 'f json \<Rightarrow> exn_kind + bool" where
  "py_gt0 R (JInt i) = Inr (0 < i)"
| "py_gt0 R (JBool b) = Inr b"
| "py_gt0 R (JFloat x) = Inr (float_pos R x)"
| "py_gt0 R _ = Inl TypeError"

text \<open>
  \<open>f"{v:.2f}"\<close>: a float is formatted, an \<open>int\<close> or \<open>bool\<close> is converted to a float first
  (\<open>OverflowError\<close> when it is too large), a \<open>str\<close> raises \<open>ValueError\<close> (unknown format
  code), the others raise \<open>TypeError\<close>.
\<close>

fun fmt_2f :: "'f runtime \<Rightarrow> 'f json \<Rightarrow> exn_kind + string" where
  "fmt_2f R (JFloat x) = Inr (float_fmt2 R x)"
| "fmt_2f R (JInt i) =
     (case float_of_int R i of None \<Rightarrow> Inl OverflowError | Some x \<Rightarrow> Inr (float_fmt2 R x))"
| "fmt_2f R (JBool b) =
     (case float_of_int R (if b then 1 else 0) of
        None \<Rightarrow> Inl OverflowError | Some x \<Rightarrow> Inr (float_fmt2 R x))"
| "fmt_2f R (JStr s) = Inl ValueError"
| "fmt_2f R _ = Inl TypeError"

text \<open>
  The items \<open>enumerate(v, 1)\<close> goes through: the elements of a list, the characters of a
  string, the keys of a dict; anything else is not iterable.
\<close>

fun py_iter :: "'f json \<Rightarrow> exn_kind + 'f json list" where
  "py_iter (JArr xs) = Inr xs"
| "py_iter (JStr s) = Inr (map (\<lambda>c. JStr [c]) s)"
| "py_iter (JObj kv) = Inr (map (\<lambda>p. JStr (fst p)) kv)"
| "py_iter _ = Inl TypeError"

text \<open>\<open>d.get(k, default)\<close> with a string for the default.\<close>

definition get_or :: "(string \<times> 'f json) list \<Rightarrow> string \<Rightarrow> string \<Rightarrow> 'f json" where
  "get_or kv k dflt = (case map_of kv k of None \<Rightarrow> JStr dflt | Some v \<Rightarrow> v)"

text \<open>The list \<open>search_info\<close>: the query line and the line of the estimate.\<close>

definition search_info_lines :: "'f runtime \<Rightarrow> (string \<times> 'f json) list \<Rightarrow> exn_kind + string list" where
  "search_info_lines R data =
     on_ok (case map_of data ''query'' of
              Some v \<Rightarrow> on_ok (py_str R v) (\<lambda>s. Inr [''Query: '' @ s])
            | None \<Rightarrow> Inr [])
       (\<lambda>search_info.
          case map_of data ''number_of_results'' of
            None \<Rightarrow> Inr search_info
          | Some n \<Rightarrow>
              on_ok (py_gt0 R n)
                (\<lambda>b. if b
                      then on_ok (py_str R n)
                             (\<lambda>s. Inr (search_info @ [''Found approximately '' @ s @ '' results'']))
                      else Inr search_info))"

text \<open>
  The body of the loop: \<open>result.get\<close> needs a dict (\<open>AttributeError\<close> otherwise); the
  f-strings convert the title, the URL and the content in this order, then the date,
  then the score. The index \<open>i\<close> is at most the length of the list, so its numeral is
  far below the digit limit.
\<close>

fun result_text :: "'f runtime \<Rightarrow> nat \<Rightarrow> 'f json \<Rightarrow> exn_kind + string" where
  "result_text R i (JObj kv) =
     on_ok (py_str R (get_or kv ''title'' ''No title'')) (\<lambda>v_title.
     on_ok (py_str R (get_or kv ''url'' ''No URL'')) (\<lambda>v_url.
     on_ok (py_str R (get_or kv ''content'' ''No description'')) (\<lambda>v_content.
     on_ok (case map_of kv ''publishedDate'' of
              Some d \<Rightarrow>
                on_ok (py_str R d)
                  (\<lambda>s. Inr (str_nat i @ ''. '' @ v_title @ ''\<newline>   URL: '' @ v_url
                            @ ''\<newline>   '' @ v_content @ ''\<newline>   Date: '' @ s))
            | None \<Rightarrow>
                Inr (str_nat i @ ''. '' @ v_title @ ''\<newline>   URL: '' @ v_url
                     @ ''\<newline>   '' @ v_content))
       (\<lambda>txt. case map_of kv ''score'' of
                 None \<Rightarrow> Inr txt
               | Some s \<Rightarrow> on_ok (fmt_2f R s) (\<lambda>t. Inr (txt @ ''\<newline>   Score: '' @ t))))))"
| "result_text R i _ = Inl AttributeError"

fun results_loop ::
  "'f runtime \<Rightarrow> nat \<Rightarrow> 'f json list \<Rightarrow> string list \<Rightarrow> exn_kind + string list" where
  "results_loop R i [] formatted_results = Inr formatted_results"
| "results_loop R i (r # rs) formatted_results =
     on_ok (result_text R i r)
       (\<lambda>t. results_loop R (i + 1) rs (formatted_results @ [t]))"

definition format_results :: "'f runtime \<Rightarrow> (string \<times> 'f json) list \<Rightarrow> exn_kind + string" where
  "format_results R data =
     (let v_results = (case map_of data ''results'' of None \<Rightarrow> JArr [] | Some v \<Rightarrow> v)
      in if \<not> truthy R v_results then Inr ''No results found.''
         else on_ok (search_info_lines R data) (\<lambda>search_info.
              on_ok (py_iter v_results) (\<lambda>items.
              on_ok (results_loop R 1 items []) (\<lambda>formatted_results.
                Inr (str_join ''\<newline>'' search_info @ ''\<newline>\<newline>''
                     @ str_join ''\<newline>\<newline>'' formatted_results)))))"

section \<open>The properties, as the specification words them\<close>

text \<open>
  The required fields of a result with their annotations, and a result object that is
  malformed: a required field is missing, or it carries a value of a wrong type that the
  schema library does not convert to the annotated one:
  \<^item> for \<open>str\<close>, anything but a string;
  \<^item> for \<open>int\<close>, \<open>None\<close>, a list, a dict, a float with a fractional part, a string that
    does not read as an \<open>int\<close>;
  \<^item> for \<open>float\<close>, \<open>None\<close>, a list, a dict, an \<open>int\<close> beyond the range of floats, a string
    that does not read as a float;
  \<^item> for \<open>list[T]\<close>, anything but a list, and a list with an element wrong for \<open>T\<close>.
\<close>

datatype ftype = TStr | TStrList | TIntList | TFloat

definition required_fields :: "(string \<times> ftype) list" where
  "required_fields =
     [(''url'', TStr), (''title'', TStr), (''content'', TStr), (''engine'', TStr),
      (''template'', TStr), (''parsed_url'', TStrList), (''img_src'', TStr),
      (''priority'', TStr), (''engines'', TStrList), (''positions'', TIntList),
      (''score'', TFloat), (''category'', TStr)]"

fun not_str :: "'f json \<Rightarrow> bool" where
  "not_str (JStr s) = False"
| "not_str _ = True"

fun no_int :: "'f env \<Rightarrow> 'f json \<Rightarrow> bool" where
  "no_int E (JInt i) = False"
| "no_int E (JBool b) = False"
| "no_int E (JFloat x) = (float_as_int E x = None)"
| "no_int E (JStr s) = (parse_int E s = None)"
| "no_int E _ = True"

fun no_float :: "'f env \<Rightarrow> 'f json \<Rightarrow> bool" where
  "no_float E (JFloat x) = False"
| "no_float E (JInt i) = (int_as_float E i = None)"
| "no_float E (JBool b) = (int_as_float E (if b then 1 else 0) = None)"
| "no_float E (JStr s) = (parse_float E s = None)"
| "no_float E _ = True"

fun not_list_of :: "('f json \<Rightarrow> bool) \<Rightarrow> 'f json \<Rightarrow> bool" where
  "not_list_of wrong (JArr xs) = list_ex wrong xs"
| "not_list_of wrong _ = True"

fun wrongly_typed :: "'f env \<Rightarrow> ftype \<Rightarrow> 'f json \<Rightarrow> bool" where
  "wrongly_typed E TStr v = not_str v"
| "wrongly_typed E TStrList v = not_list_of not_str v"
| "wrongly_typed E TIntList v = not_list_of (no_int E) v"
| "wrongly_typed E TFloat v = no_float E v"

definition bad_field :: "'f env \<Rightarrow> (string \<times> 'f json) list \<Rightarrow> string \<times> ftype \<Rightarrow> bool" where
  "bad_field E kv p =
     (case map_of kv (fst p) of None \<Rightarrow> True | Some v \<Rightarrow> wrongly_typed E (snd p) v)"

definition malformed_result :: "'f env \<Rightarrow> (string \<times> 'f json) list \<Rightarrow> bool" where
  "malformed_result E kv = list_ex (bad_field E kv) required_fields"

text \<open>
  The header and an entry of the alternate formatter, and the values it can format:
  \<^item> a value has a text unless it is an \<open>int\<close> of more digits than the interpreter's
    limit, or a list or dict whose \<open>str()\<close> raises;
  \<^item> an estimate can be compared with \<open>0\<close> when it is an \<open>int\<close>, a \<open>bool\<close> or a float;
  \<^item> a score can be formatted with \<open>.2f\<close> when it is a float, or an \<open>int\<close> or \<open>bool\<close> that
    \<open>float()\<close> converts.
\<close>

definition text_of :: "'f runtime \<Rightarrow> 'f json \<Rightarrow> string" where
  "text_of R v = (case py_str R v of Inr s \<Rightarrow> s | Inl e \<Rightarrow> [])"

fun has_text :: "'f runtime \<Rightarrow> 'f json \<Rightarrow> bool" where
  "has_text R (JInt i) = (\<not> over_digit_limit R i)"
| "has_text R (JArr xs) = (case container_str R (JArr xs) of Inr s \<Rightarrow> True | Inl e \<Rightarrow> False)"
| "has_text R (JObj kv) = (case container_str R (JObj kv) of Inr s \<Rightarrow> True | Inl e \<Rightarrow> False)"
| "has_text R _ = True"

definition field_has_text :: "'f runtime \<Rightarrow> (string \<times> 'f json) list \<Rightarrow> string \<Rightarrow> bool" where
  "field_has_text R kv k = (case map_of kv k of None \<Rightarrow> True | Some v \<Rightarrow> has_text R v)"

definition loose_header :: "'f runtime \<Rightarrow> (string \<times> 'f json) list \<Rightarrow> string list" where
  "loose_header R data =
     (case map_of data ''query'' of None \<Rightarrow> [] | Some v \<Rightarrow> [''Query: '' @ text_of R v])
     @ (case map_of data ''number_of_results'' of
          None \<Rightarrow> []
        | Some n \<Rightarrow>
            if py_gt0 R n = Inr True
            then [''Found approximately '' @ text_of R n @ '' results''] else [])"

definition field_or :: "'f runtime \<Rightarrow> (string \<times> 'f json) list \<Rightarrow> string \<Rightarrow> string \<Rightarrow> string" where
  "field_or R kv k placeholder = (case map_of kv k of None \<Rightarrow> placeholder | Some v \<Rightarrow> text_of R v)"

definition two_decimals :: "'f runtime \<Rightarrow> 'f json \<Rightarrow> string" where
  "two_decimals R v = (case fmt_2f R v of Inr t \<Rightarrow> t | Inl e \<Rightarrow> [])"

fun loose_entry :: "'f runtime \<Rightarrow> nat \<Rightarrow> 'f json \<Rightarrow> string" where
  "loose_entry R i (JObj kv) =
     str_nat i @ ''. '' @ field_or R kv ''title'' ''No title''
     @ ''\<newline>   URL: '' @ field_or R kv ''url'' ''No URL''
     @ ''\<newline>   '' @ field_or R kv ''content'' ''No description''
     @ (case map_of kv ''publishedDate'' of
          None \<Rightarrow> [] | Some d \<Rightarrow> ''\<newline>   Date: '' @ text_of R d)
     @ (case map_of kv ''score'' of
          None \<Rightarrow> [] | Some s \<Rightarrow> ''\<newline>   Score: '' @ two_decimals R s)"
| "loose_entry R i _ = []"

fun formattable :: "'f runtime \<Rightarrow> 'f json \<Rightarrow> bool" where
  "formattable R (JFloat x) = True"
| "formattable R (JInt i) = (float_of_int R i \<noteq> None)"
| "formattable R (JBool b) = (float_of_int R (if b then 1 else 0) \<noteq> None)"
| "formattable R _ = False"

fun well_typed_result :: "'f runtime \<Rightarrow> 'f json \<Rightarrow> bool" where
  "well_typed_result R (JObj kv) =
     (field_has_text R kv ''title'' \<and> field_has_text R kv ''url''
      \<and> field_has_text R kv ''content'' \<and> field_has_text R kv ''publishedDate''
      \<and> (case map_of kv ''score'' of None \<Rightarrow> True | Some s \<Rightarrow> formattable R s))"
| "well_typed_result R _ = False"

fun comparable :: "'f json \<Rightarrow> bool" where
  "comparable (JInt i) = True"
| "comparable (JBool b) = True"
| "comparable (JFloat x) = True"
| "comparable _ = False"

definition well_typed_header :: "'f runtime \<Rightarrow> (string \<times> 'f json) list \<Rightarrow> bool" where
  "well_typed_header R data =
     (field_has_text R data ''query''
      \<and> (case map_of data ''number_of_results'' of
            None \<Rightarrow> True
          | Some n \<Rightarrow> comparable n \<and> (py_gt0 R n = Inr True \<longrightarrow> has_text R n)))"

section \<open>Example data\<close>

text \<open>
  A library environment with a fixed outcome of the HTTP call and of the decoding. In the
  examples a float is a number of hundredths, below \<open>2^1024 - 2^970\<close> in magnitude as an
  \<open>int\<close> converted to a float must be; the strings that read as numbers are the unsigned
  decimal numerals, with at most two decimals for a float.
\<close>

definition digit_value :: "char \<Rightarrow> nat option" where
  "digit_value c =
     map_of [(CHR ''0'', 0), (CHR ''1'', 1), (CHR ''2'', 2), (CHR ''3'', 3), (CHR ''4'', 4),
             (CHR ''5'', 5), (CHR ''6'', 6), (CHR ''7'', 7), (CHR ''8'', 8), (CHR ''9'', 9)] c"

fun parse_digits :: "string \<Rightarrow> nat \<Rightarrow> nat option" where
  "parse_digits [] acc = Some acc"
| "parse_digits (c # cs) acc =
     (case digit_value c of None \<Rightarrow> None | Some d \<Rightarrow> parse_digits cs (10 * acc + d))"

definition demo_parse_int :: "string \<Rightarrow> int option" where
  "demo_parse_int s = (if s = [] then None else map_option int (parse_digits s 0))"

definition demo_parse_float :: "string \<Rightarrow> int option" where
  "demo_parse_float s =
     (case demo_parse_int (takeWhile (\<lambda>c. c \<noteq> CHR ''.'') s) of
        None \<Rightarrow> None
      | Some w \<Rightarrow>
          (case dropWhile (\<lambda>c. c \<noteq> CHR ''.'') s of
             [] \<Rightarrow> Some (100 * w)
           | [p, a] \<Rightarrow> map_option (\<lambda>d. 100 * w + 10 * int d) (digit_value a)
           | [p, a, b] \<Rightarrow>
               (case digit_value a of
                  None \<Rightarrow> None
                | Some d \<Rightarrow> map_option (\<lambda>e. 100 * w + 10 * int d + int e) (digit_value b))
           | _ \<Rightarrow> None))"

definition demo_int_as_float :: "int \<Rightarrow> int option" where
  "demo_int_as_float i = (if \<bar>i\<bar> < 2 ^ 1024 - 2 ^ 970 then Some (100 * i) else None)"

definition demo_float_as_int :: "int \<Rightarrow> int option" where
  "demo_float_as_int x = (if x mod 100 = 0 then Some (x div 100) else None)"

definition demo_env :: "exn + response \<Rightarrow> exn + int json \<Rightarrow> int env" where
  "demo_env got decoded =
     \<lparr> http_get = (\<lambda>req. got),
       json_loads = (\<lambda>s. decoded),
       parse_int = demo_parse_int,
       parse_float = demo_parse_float,
       float_as_int = demo_float_as_int,
       int_as_float = demo_int_as_float,
       status_msg = (\<lambda>r. ''HTTP status '' @ str_int (status_code r)),
       validation_msg = (\<lambda>v. ''validation error for SearxngResponse''),
       mapping_msg = (\<lambda>v. ''argument after ** must be a mapping'') \<rparr>"

definition demo_client :: client where
  "demo_client = SearxNGClient_init ''http://localhost:8080/'' 10"

definition demo_hit :: "string \<Rightarrow> string \<Rightarrow> string \<Rightarrow> (string \<times> int json) list" where
  "demo_hit t u c =
     [(''url'', JStr u), (''title'', JStr t), (''content'', JStr c),
      (''engine'', JStr ''duckduckgo''), (''template'', JStr ''default.html''),
      (''parsed_url'', JArr [JStr ''http'', JStr ''a'']), (''img_src'', JStr []),
      (''priority'', JStr []), (''engines'', JArr [JStr ''duckduckgo'']),
      (''positions'', JArr [JInt 1]), (''score'', JFloat 150), (''category'', JStr ''general'')]"

definition demo_record :: "string \<Rightarrow> string \<Rightarrow> string \<Rightarrow> int SearxngResult" where
  "demo_record t u c =
     \<lparr> url = u, title = t, content = c, thumbnail = JNull,
       engine = ''duckduckgo'', template = ''default.html'', parsed_url = [''http'', ''a''],
       img_src = [], priority = [], engines = [''duckduckgo''], positions = [1],
       score = 150, category = ''general'', published_date = JNull \<rparr>"

definition lax_hit :: "(string \<times> int json) list" where
  "lax_hit =
     dict_set ''positions'' (JArr [JStr ''1'', JStr ''3''])
       (dict_set ''score'' (JStr ''1.5'') (demo_hit ''Cat facts'' ''http://a'' ''x''))"

definition lax_body :: "int json" where
  "lax_body =
     JObj [(''query'', JStr ''cats''), (''number_of_results'', JInt 1),
           (''results'', JArr [JObj lax_hit])]"

definition cats_body :: "int json" where
  "cats_body =
     JObj [(''query'', JStr ''cats''), (''number_of_results'', JInt 2),
           (''results'', JArr [JObj (demo_hit ''Cat facts'' ''http://a'' (replicate 250 CHR ''x'')),
                              JObj (demo_hit ''Cat pics'' ''http://b'' ''short'')])]"

definition cats_response :: "int SearxngResponse" where
  "cats_response =
     \<lparr> query = ''cats'', number_of_results = 2,
       results = [demo_record ''Cat facts'' ''http://a'' (replicate 250 CHR ''x''),
                  demo_record ''Cat pics'' ''http://b'' ''short''] \<rparr>"

definition ok_response :: response where
  "ok_response = \<lparr> status_code = 200, resp_text = ''{...}'' \<rparr>"

definition cats_env :: "int env" where
  "cats_env = demo_env (Inr ok_response) (Inr cats_body)"

definition empty_body :: "int json" where
  "empty_body =
     JObj [(''query'', JStr ''zzzz''), (''number_of_results'', JInt 0), (''results'', JArr [])]"

definition empty_response :: "int SearxngResponse" where
  "empty_response = \<lparr> query = ''zzzz'', number_of_results = 0, results = [] \<rparr>"

definition empty_env :: "int env" where
  "empty_env = demo_env (Inr ok_response) (Inr empty_body)"

text \<open>
  An interpreter for the examples: a float is a number of hundredths, printed as the
  interpreter prints such a float of magnitude below \<open>10^16\<close>; an \<open>int\<close> converts to a
  float when it is below \<open>2^1024 - 2^970\<close> in magnitude; the digit limit is the default
  one; of the lists and dicts, only the empty ones are printed as they are.
\<close>

definition fixed2 :: "int \<Rightarrow> string" where
  "fixed2 x =
     (let a = nat \<bar>x\<bar>
      in (if x < 0 then ''-'' else []) @ str_nat (a div 100) @ ''.''
         @ [digit (a div 10 mod 10), digit (a mod 10)])"

definition shortest2 :: "int \<Rightarrow> string" where
  "shortest2 x =
     (let a = nat \<bar>x\<bar>
      in (if x < 0 then ''-'' else []) @ str_nat (a div 100) @ ''.''
         @ (if a mod 10 = 0 then [digit (a div 10 mod 10)]
            else [digit (a div 10 mod 10), digit (a mod 10)]))"

definition demo_container_str :: "int json \<Rightarrow> exn_kind + string" where
  "demo_container_str v =
     (case v of JArr [] \<Rightarrow> Inr ''[]'' | JObj [] \<Rightarrow> Inr ''{}'' | _ \<Rightarrow> Inr ''[...]'')"

definition demo_runtime :: "int runtime" where
  "demo_runtime =
     \<lparr> float_str = shortest2, float_fmt2 = fixed2, float_pos = (\<lambda>x. 0 < x),
       float_nonzero = (\<lambda>x. x \<noteq> 0), float_of_int = demo_int_as_float,
       container_str = demo_container_str, int_max_str_digits = 4300 \<rparr>"

section \<open>Auxiliary facts\<close>

declare SearxngResult_validate.simps [simp del]

lemma str_nat_Suc0: "str_nat (Suc 0) = ''1''"
  by (simp add: str_nat.simps digit_def)

text \<open>The loop appends one entry per result, numbered from its start index.\<close>

lemma format_loop_eq:
  "format_loop i rs acc = acc @ map (\<lambda>k. text_entry (i + k) (rs ! k)) [0..<length rs]"
proof (induction rs arbitrary: i acc)
  case Nil
  then show ?case by simp
next
  case (Cons r rs)
  show ?case
    by (simp add: Cons.IH map_upt_Suc del: upt_Suc)
qed

text \<open>Joining puts the separator before every element but the first, and nowhere else.\<close>

lemma str_join_alt:
  "xs \<noteq> [] \<Longrightarrow> str_join sep xs = hd xs @ concat (map ((@) sep) (tl xs))"
  by (induction sep xs rule: str_join.induct) auto

lemma slice_to_pos: "0 < n \<Longrightarrow> slice_to xs n = take (nat n) xs"
  by (simp add: slice_to_def)

text \<open>The three ways \<open>web_search\<close> ends.\<close>

lemma web_search_ok:
  assumes "0 < n" and "search E c q cats lang (map_option time_range_token tr) = (Inr resp, evs)"
  shows "web_search E c ctx q n cats lang tr fmt =
     (Inr (case fmt of Json \<Rightarrow> OutJson (take (nat n) (results resp))
            | Text \<Rightarrow> OutText (str_join ''\<newline>\<newline>'' (format_loop 1 (take (nat n) (results resp)) []))),
      (if ctx then [CtxInfo ''Starting web search...''] else []) @ evs)"
  using assms by (cases fmt) (simp_all add: web_search_def slice_to_pos)

lemma web_search_fail_count:
  "n \<le> 0 \<Longrightarrow> web_search E c ctx q n cats lang tr fmt =
     web_search_except ctx (Exn ValueError ''result_count must be greater than 0'' None)
       (if ctx then [CtxInfo ''Starting web search...''] else [])"
  by (simp add: web_search_def)

lemma web_search_fail_search:
  "0 < n \<Longrightarrow> search E c q cats lang (map_option time_range_token tr) = (Inl e, evs) \<Longrightarrow>
   web_search E c ctx q n cats lang tr fmt =
     web_search_except ctx e ((if ctx then [CtxInfo ''Starting web search...''] else []) @ evs)"
  by (simp add: web_search_def)

text \<open>A non-empty text rendering starts with the digit of its first entry.\<close>

lemma text_out_hd:
  "str_join sep (format_loop 1 (r # rs) []) = CHR ''1'' # tl (str_join sep (format_loop 1 (r # rs) []))"
proof -
  have "format_loop 1 (r # rs) [] \<noteq> []"
    by (simp add: format_loop_eq map_upt_Suc del: upt_Suc)
  then have "str_join sep (format_loop 1 (r # rs) []) =
      hd (format_loop 1 (r # rs) []) @ concat (map ((@) sep) (tl (format_loop 1 (r # rs) [])))"
    by (rule str_join_alt)
  moreover have "hd (format_loop 1 (r # rs) []) = text_entry 1 r"
    by (simp add: format_loop_eq map_upt_Suc del: upt_Suc)
  moreover have "text_entry 1 r = CHR ''1'' # tl (text_entry 1 r)"
    by (simp add: text_entry_def str_nat_Suc0)
  ultimately show ?thesis
    by (metis append_Cons list.sel(3))
qed

lemma text_out_not_placeholder:
  "str_join sep (format_loop 1 rs []) \<noteq> ''No results found.''"
proof (cases rs)
  case Nil
  then show ?thesis by simp
next
  case (Cons r rs')
  show ?thesis
  proof
    assume "str_join sep (format_loop 1 rs []) = ''No results found.''"
    with text_out_hd[of sep r rs'] Cons show False by simp
  qed
qed

lemma web_search_never_placeholder:
  "fst (web_search E c ctx q n cats lang tr fmt) \<noteq> Inr (OutText ''No results found.'')"
proof (cases "n \<le> 0")
  case True
  then show ?thesis by (simp add: web_search_fail_count web_search_except_def)
next
  case False
  then have pos: "0 < n" by simp
  obtain r evs where s: "search E c q cats lang (map_option time_range_token tr) = (r, evs)"
    by (cases "search E c q cats lang (map_option time_range_token tr)") auto
  show ?thesis
  proof (cases r)
    case (Inl e)
    with s pos show ?thesis by (simp add: web_search_fail_search web_search_except_def)
  next
    case (Inr resp)
    with s pos show ?thesis
      by (cases fmt) (simp_all add: web_search_ok text_out_not_placeholder[unfolded One_nat_def])
  qed
qed

text \<open>The example environments, evaluated.\<close>

lemma demo_env_sel:
  "http_get (demo_env got dec) req = got"
  "json_loads (demo_env got dec) s = dec"
  by (simp_all add: demo_env_def)

lemma demo_hit_valid:
  "SearxngResult_validate (demo_env got dec) (JObj (demo_hit t u c)) = Some (demo_record t u c)"
  by (simp add: SearxngResult_validate.simps demo_env_def demo_hit_def demo_record_def
      required_def optional_any_def)

lemma cats_init:
  "SearxngResponse_init (demo_env got dec) cats_body = Inr cats_response"
  by (simp add: SearxngResponse_init_def cats_body_def cats_response_def required_def demo_hit_valid)

lemma cats_search:
  "search cats_env demo_client q cats lang tr =
     (Inr cats_response,
      [HttpGet \<lparr> req_url = ''http://localhost:8080/search'',
                  req_params = build_params q cats lang tr, req_timeout = 10 \<rparr>,
       LogInfo ''Response: {...}...''])"
  by (simp add: search_def cats_env_def demo_env_sel raise_for_status_def ok_response_def
      cats_init demo_client_def SearxNGClient_init_def rstrip_slash_def)

lemma empty_init:
  "SearxngResponse_init (demo_env got dec) empty_body = Inr empty_response"
  by (simp add: SearxngResponse_init_def empty_body_def empty_response_def required_def)

lemma empty_search:
  "search empty_env demo_client q cats lang tr =
     (Inr empty_response,
      [HttpGet \<lparr> req_url = ''http://localhost:8080/search'',
                  req_params = build_params q cats lang tr, req_timeout = 10 \<rparr>,
       LogInfo ''Response: {...}...''])"
  by (simp add: search_def empty_env_def demo_env_sel raise_for_status_def ok_response_def
      empty_init demo_client_def SearxNGClient_init_def rstrip_slash_def)

section \<open>The renderer\<close>

text \<open>
  Claim C1. For a validated response with \<open>L\<close> results and a \<open>result_count\<close> \<open>N > 0\<close>, the
  tool renders exactly \<open>response.results[0:N]\<close>: the first \<open>min N L\<close> results in upstream
  order, all \<open>L\<close> of them when \<open>N\<close> exceeds \<open>L\<close>, with no error and no padding. With the
  format \<open>json\<close> the tool returns these records themselves, unmodified; with the format
  \<open>text\<close> it renders the same selection.
\<close>

theorem web_search_selection:
  assumes "0 < result_count"
    and "search E c q cats lang (map_option time_range_token tr) = (Inr resp, evs)"
  shows "fst (web_search E c ctx q result_count cats lang tr Json)
           = Inr (OutJson (take (nat result_count) (results resp)))
       \<and> fst (web_search E c ctx q result_count cats lang tr Text)
           = Inr (OutText (str_join ''\<newline>\<newline>''
                    (format_loop 1 (take (nat result_count) (results resp)) [])))
       \<and> length (take (nat result_count) (results resp))
           = min (nat result_count) (length (results resp))
       \<and> (\<forall>i < min (nat result_count) (length (results resp)).
             take (nat result_count) (results resp) ! i = results resp ! i)
       \<and> (length (results resp) \<le> nat result_count
             \<longrightarrow> take (nat result_count) (results resp) = results resp)"
proof -
  have "fst (web_search E c ctx q result_count cats lang tr Json)
           = Inr (OutJson (take (nat result_count) (results resp)))"
    by (simp add: web_search_ok[OF assms])
  moreover have "fst (web_search E c ctx q result_count cats lang tr Text)
           = Inr (OutText (str_join ''\<newline>\<newline>''
                    (format_loop 1 (take (nat result_count) (results resp)) [])))"
    by (simp add: web_search_ok[OF assms])
  moreover have "length (take (nat result_count) (results resp))
           = min (nat result_count) (length (results resp))"
    by (simp add: min.commute)
  ultimately show ?thesis by simp
qed

text \<open>
  Five results are requested of a response that has two: both come back, as the records
  the client validated.
\<close>

theorem web_search_selection_witness:
  "fst (web_search cats_env demo_client True ''cats'' 5 None None None Json)
     = Inr (OutJson (results cats_response))
   \<and> length (results cats_response) = 2"
proof -
  have pos: "(0::int) < 5" by simp
  have s: "search cats_env demo_client ''cats'' None None (map_option time_range_token None)
      = (Inr cats_response,
         [HttpGet \<lparr> req_url = ''http://localhost:8080/search'',
                     req_params = build_params ''cats'' None None None, req_timeout = 10 \<rparr>,
          LogInfo ''Response: {...}...''])"
    by (simp add: cats_search)
  from web_search_selection[OF pos s, of True] show ?thesis
    by (simp add: cats_response_def)
qed

text \<open>
  Claim C4. With \<open>result_count \<le> 0\<close> and any format, the tool fails with the validation
  error \<open>ValueError("result_count must be greater than 0")\<close>; it renders nothing and issues
  no HTTP request: the only events are the start notice, the error log record and the
  error notice.
\<close>

theorem web_search_rejects_count:
  assumes "result_count \<le> 0"
  shows "web_search E c ctx q result_count cats lang tr fmt =
           (Inl (Exn ValueError ''result_count must be greater than 0'' None),
            (if ctx then [CtxInfo ''Starting web search...''] else [])
            @ [LogError ''Error during web search: result_count must be greater than 0'']
            @ (if ctx then [CtxInfo ''Error during search: result_count must be greater than 0'']
               else []))
       \<and> requests (snd (web_search E c ctx q result_count cats lang tr fmt)) = []"
  using assms by (simp add: web_search_fail_count web_search_except_def)

text \<open>Counts \<open>0\<close> and \<open>-3\<close>, against an upstream that would have answered.\<close>

theorem web_search_rejects_count_witness:
  "fst (web_search cats_env demo_client False ''cats'' 0 None None None Json)
     = Inl (Exn ValueError ''result_count must be greater than 0'' None)
   \<and> fst (web_search cats_env demo_client False ''cats'' (- 3) None None None Text)
     = Inl (Exn ValueError ''result_count must be greater than 0'' None)
   \<and> requests (snd (web_search cats_env demo_client False ''cats'' 0 None None None Json)) = []"
proof -
  have a: "(0::int) \<le> 0" and b: "(- 3::int) \<le> 0" by simp_all
  from web_search_rejects_count[OF a, of cats_env demo_client False "''cats''" None None None Json]
       web_search_rejects_count[OF b, of cats_env demo_client False "''cats''" None None None Text]
  show ?thesis by simp
qed

text \<open>
  Claim C5. For a non-empty selection rendered as text, the output is one string: the
  result at 1-based position \<open>i\<close> contributes the line \<open>"{i}. [{title}]({url})"\<close> and an
  indented line made of the first 200 characters of its content followed by \<open>"..."\<close>,
  whatever the length of the content; a blank line stands between consecutive entries and
  nothing follows the last one.
\<close>

theorem web_search_text_rendering:
  assumes "0 < result_count"
    and "search E c q cats lang (map_option time_range_token tr) = (Inr resp, evs)"
    and "selected = take (nat result_count) (results resp)"
    and "selected \<noteq> []"
  shows "let entries =
           map (\<lambda>i. str_nat (i + 1) @ ''. ['' @ title (selected ! i) @ '']('' @ url (selected ! i) @ '')''
                     @ ''\<newline>'' @ ''   '' @ take 200 (content (selected ! i)) @ ''...'')
               [0..<length selected]
         in fst (web_search E c ctx q result_count cats lang tr Text)
              = Inr (OutText (hd entries @ concat (map ((@) ''\<newline>\<newline>'') (tl entries))))"
proof -
  let ?entries = "map (\<lambda>i. str_nat (i + 1) @ ''. ['' @ title (selected ! i) @ '']('' @ url (selected ! i) @ '')''
                     @ ''\<newline>'' @ ''   '' @ take 200 (content (selected ! i)) @ ''...'')
               [0..<length selected]"
  have fl: "format_loop 1 selected [] = ?entries"
    by (simp add: format_loop_eq text_entry_def)
  have ne: "?entries \<noteq> []" using assms(4) by simp
  have "fst (web_search E c ctx q result_count cats lang tr Text)
          = Inr (OutText (str_join ''\<newline>\<newline>'' (format_loop 1 selected [])))"
    by (simp add: web_search_ok[OF assms(1,2)] assms(3))
  also have "str_join ''\<newline>\<newline>'' (format_loop 1 selected [])
          = hd ?entries @ concat (map ((@) ''\<newline>\<newline>'') (tl ?entries))"
    unfolding fl by (rule str_join_alt[OF ne])
  finally show ?thesis by (simp add: Let_def)
qed

text \<open>
  One result is requested of the two: the entry of the first, its content of 250
  characters cut to 200 and followed by the ellipsis.
\<close>

theorem web_search_text_rendering_witness:
  "fst (web_search cats_env demo_client False ''cats'' 1 None None None Text)
     = Inr (OutText (''1. [Cat facts](http://a)\<newline>   '' @ replicate 200 CHR ''x'' @ ''...''))"
proof -
  have pos: "(0::int) < 1" by simp
  have s: "search cats_env demo_client ''cats'' None None (map_option time_range_token None)
      = (Inr cats_response,
         [HttpGet \<lparr> req_url = ''http://localhost:8080/search'',
                     req_params = build_params ''cats'' None None None, req_timeout = 10 \<rparr>,
          LogInfo ''Response: {...}...''])"
    by (simp add: cats_search)
  have sel: "[demo_record ''Cat facts'' ''http://a'' (replicate 250 CHR ''x'')]
               = take (nat 1) (results cats_response)"
    by (simp add: cats_response_def)
  have ne: "[demo_record ''Cat facts'' ''http://a'' (replicate 250 CHR ''x'')] \<noteq> []" by simp
  from web_search_text_rendering[OF pos s sel ne, of False] show ?thesis
    by (simp add: Let_def demo_record_def str_nat_Suc0)
qed

text \<open>
  Claim C8. When the validated response has no results, the tool returns the empty
  sequence for the format \<open>json\<close> and the empty string for the format \<open>text\<close>; and whatever
  its arguments, the tool never returns the placeholder \<open>"No results found."\<close>, which only
  the alternate formatter produces.
\<close>

theorem web_search_empty_results:
  "(0 < result_count
      \<and> search E c q cats lang (map_option time_range_token tr) = (Inr resp, evs)
      \<and> results resp = []
    \<longrightarrow> fst (web_search E c ctx q result_count cats lang tr Json) = Inr (OutJson [])
      \<and> fst (web_search E c ctx q result_count cats lang tr Text) = Inr (OutText []))
   \<and> fst (web_search E c ctx q result_count cats lang tr fmt)
        \<noteq> Inr (OutText ''No results found.'')"
proof -
  have "fst (web_search E c ctx q result_count cats lang tr Json) = Inr (OutJson [])
      \<and> fst (web_search E c ctx q result_count cats lang tr Text) = Inr (OutText [])"
    if "0 < result_count"
      and "search E c q cats lang (map_option time_range_token tr) = (Inr resp, evs)"
      and "results resp = []"
    using that by (simp add: web_search_ok)
  then show ?thesis using web_search_never_placeholder by blast
qed

text \<open>An upstream that answers with an empty result list.\<close>

theorem web_search_empty_results_witness:
  "fst (web_search empty_env demo_client False ''zzzz'' 10 None None None Json) = Inr (OutJson [])
   \<and> fst (web_search empty_env demo_client False ''zzzz'' 10 None None None Text) = Inr (OutText [])"
proof -
  have s: "search empty_env demo_client ''zzzz'' None None (map_option time_range_token None)
      = (Inr empty_response,
         [HttpGet \<lparr> req_url = ''http://localhost:8080/search'',
                     req_params = build_params ''zzzz'' None None None, req_timeout = 10 \<rparr>,
          LogInfo ''Response: {...}...''])"
    by (simp add: empty_search)
  have e: "results empty_response = []" by (simp add: empty_response_def)
  from web_search_empty_results[of 10 empty_env demo_client "''zzzz''" None None None
      empty_response _ False Json] s e
  show ?thesis by simp
qed

section \<open>The client\<close>

text \<open>The parameters of the request, key by key.\<close>

lemma map_of_dict_set: "map_of (dict_set k v ps) = (map_of ps)(k \<mapsto> v)"
  by (induction ps) (auto simp: fun_eq_iff)

lemma build_params_format:
  "map_of (build_params q cats lang tr) ''format'' = Some ''json''"
  by (simp add: build_params_def Let_def map_of_dict_set split: option.splits)

lemma build_params_q:
  "map_of (build_params q cats lang tr) ''q'' = Some q"
  by (simp add: build_params_def Let_def map_of_dict_set split: option.splits)

lemma build_params_categories:
  "map_of (build_params q cats lang tr) ''categories'' =
     (case cats of None \<Rightarrow> None | Some cs \<Rightarrow> if cs = [] then None else Some (str_join '','' cs))"
  by (simp add: build_params_def Let_def map_of_dict_set split: option.splits)

lemma build_params_language:
  "map_of (build_params q cats lang tr) ''language'' =
     (case lang of None \<Rightarrow> None | Some l \<Rightarrow> if l = [] then None else Some l)"
  by (simp add: build_params_def Let_def map_of_dict_set split: option.splits)

lemma build_params_time_range:
  "map_of (build_params q cats lang tr) ''time_range'' =
     (case tr of None \<Rightarrow> None | Some t \<Rightarrow> if t = [] then None else Some t)"
  by (simp add: build_params_def Let_def map_of_dict_set split: option.splits)

lemma build_params_empty_categories:
  "build_params q (Some []) lang tr = build_params q None lang tr"
  by (simp add: build_params_def Let_def)

lemma build_params_empty_time_range:
  "build_params q cats lang (Some []) = build_params q cats lang None"
  by (simp add: build_params_def Let_def)

lemma search_requests:
  "requests (snd (search E c q cats lang tr)) =
     [\<lparr> req_url = base_url c @ ''/search'', req_params = build_params q cats lang tr,
         req_timeout = timeout c \<rparr>]"
  by (simp add: search_def Let_def search_except_def split: sum.splits option.splits)

lemma requests_append: "requests (xs @ ys) = requests xs @ requests ys"
  by (induction xs rule: requests.induct) simp_all

lemma web_search_requests:
  "0 < n \<Longrightarrow> requests (snd (web_search E c ctx q n cats lang tr fmt)) =
     [\<lparr> req_url = base_url c @ ''/search'',
         req_params = build_params q cats lang (map_option time_range_token tr),
         req_timeout = timeout c \<rparr>]"
proof -
  assume pos: "0 < n"
  obtain r evs where s: "search E c q cats lang (map_option time_range_token tr) = (r, evs)"
    by (cases "search E c q cats lang (map_option time_range_token tr)") auto
  have rq: "requests evs = [\<lparr> req_url = base_url c @ ''/search'',
         req_params = build_params q cats lang (map_option time_range_token tr),
         req_timeout = timeout c \<rparr>]"
    using search_requests[of E c q cats lang "map_option time_range_token tr"] s by simp
  show ?thesis
  proof (cases r)
    case (Inl e)
    with s pos rq show ?thesis
      by (simp add: web_search_fail_search web_search_except_def requests_append)
  next
    case (Inr resp)
    with s pos rq show ?thesis
      by (simp add: web_search_ok requests_append)
  qed
qed

lemma search_transport_raises:
  "http_get E \<lparr> req_url = base_url c @ ''/search'', req_params = build_params q cats lang tr,
                 req_timeout = timeout c \<rparr> = Inl e \<Longrightarrow>
   fst (search E c q cats lang tr) = Inl (Exn ValueError (''Error during search: '' @ message e) (Some e))"
  by (simp add: search_def Let_def search_except_def)

lemma search_bad_status:
  "http_get E \<lparr> req_url = base_url c @ ''/search'', req_params = build_params q cats lang tr,
                 req_timeout = timeout c \<rparr> = Inr resp \<Longrightarrow>
   \<not> (200 \<le> status_code resp \<and> status_code resp \<le> 299) \<Longrightarrow>
   fst (search E c q cats lang tr) =
     Inl (Exn ValueError (''Error during search: '' @ status_msg E resp)
            (Some (Exn HTTPStatusError (status_msg E resp) None)))"
  by (auto simp add: search_def Let_def search_except_def raise_for_status_def)

lemma search_decode_fails:
  "http_get E \<lparr> req_url = base_url c @ ''/search'', req_params = build_params q cats lang tr,
                 req_timeout = timeout c \<rparr> = Inr resp \<Longrightarrow>
   200 \<le> status_code resp \<Longrightarrow> status_code resp \<le> 299 \<Longrightarrow>
   json_loads E (resp_text resp) = Inl e \<Longrightarrow>
   fst (search E c q cats lang tr) = Inl (Exn ValueError (''Error during search: '' @ message e) (Some e))"
  by (simp add: search_def Let_def search_except_def raise_for_status_def)

lemma search_init_fails:
  "http_get E \<lparr> req_url = base_url c @ ''/search'', req_params = build_params q cats lang tr,
                 req_timeout = timeout c \<rparr> = Inr resp \<Longrightarrow>
   200 \<le> status_code resp \<Longrightarrow> status_code resp \<le> 299 \<Longrightarrow>
   json_loads E (resp_text resp) = Inr j \<Longrightarrow>
   SearxngResponse_init E j = Inl e \<Longrightarrow>
   fst (search E c q cats lang tr) = Inl (Exn ValueError (''Error during search: '' @ message e) (Some e))"
  by (simp add: search_def Let_def search_except_def raise_for_status_def)

text \<open>Validation: what each annotation rejects, and how one malformed result decides.\<close>

lemma str_type_None: "(str_type E v = None) = not_str v"
  by (cases v) simp_all

lemma int_type_None: "(int_type E v = None) = no_int E v"
  by (cases v) simp_all

lemma float_type_None: "(float_type E v = None) = no_float E v"
  by (cases v) simp_all

lemma those_None: "None \<in> set xs \<Longrightarrow> those xs = None"
  by (induction xs) (auto split: option.splits)

lemma those_map_None: "(those (map f xs) = None) = list_ex (\<lambda>x. f x = None) xs"
  by (induction xs) (auto split: option.splits)

lemma list_type_None: "(list_type f v = None) = not_list_of (\<lambda>x. f x = None) v"
  by (cases v) (simp_all add: those_map_None)

lemma required_None:
  "(required f kv k = None) = (case map_of kv k of None \<Rightarrow> True | Some v \<Rightarrow> f v = None)"
  by (simp add: required_def split: option.splits)

text \<open>A result object is rejected exactly when it is malformed.\<close>

lemma validate_None_iff:
  "(SearxngResult_validate E (JObj kv) = None) = malformed_result E kv"
  by (simp add: SearxngResult_validate.simps bind_eq_None_conv malformed_result_def
      required_fields_def bad_field_def required_None list_type_None str_type_None
      int_type_None float_type_None cong: option.case_cong)

lemma init_malformed:
  assumes "map_of body ''results'' = Some (JArr rs)" and "JObj kv \<in> set rs"
    and "malformed_result E kv"
  shows "SearxngResponse_init E (JObj body)
           = Inl (Exn ValidationError (validation_msg E (JObj body)) None)"
proof -
  have "SearxngResult_validate E (JObj kv) = None"
    using assms(3) by (simp add: validate_None_iff)
  then have "None \<in> set (map (SearxngResult_validate E) rs)"
    using assms(2) by force
  then have "required (list_type (SearxngResult_validate E)) body ''results'' = None"
    using assms(1) by (simp add: required_def those_None)
  then show ?thesis
    by (cases "required (str_type E) body ''query''";
        cases "required (int_type E) body ''number_of_results''")
       (simp_all add: SearxngResponse_init_def)
qed

lemma lax_hit_valid:
  "SearxngResult_validate (demo_env got dec) (JObj lax_hit)
     = Some ((demo_record ''Cat facts'' ''http://a'' ''x'')\<lparr> positions := [1, 3], score := 150 \<rparr>)"
  by (simp add: SearxngResult_validate.simps lax_hit_def demo_env_def demo_hit_def
      demo_record_def required_def optional_any_def demo_parse_int_def demo_parse_float_def
      digit_value_def)

text \<open>
  Claim C2, as amended. When the upstream answers 2xx with a JSON body whose result list
  holds a result object that lacks one of the twelve required fields (\<open>url\<close>, \<open>title\<close>,
  \<open>content\<close>, \<open>engine\<close>, \<open>template\<close>, \<open>parsed_url\<close>, \<open>img_src\<close>, \<open>priority\<close>, \<open>engines\<close>,
  \<open>positions\<close>, \<open>score\<close>, \<open>category\<close>), or carries there a value of a wrong type that the
  schema library does not convert to the annotated one, \<open>search\<close> fails as a whole: it
  raises the \<open>ValueError\<close> whose cause is the schema library's \<open>ValidationError\<close>, and
  returns no response, whatever the other results are and wherever the malformed one
  stands. A result object is rejected exactly in these cases: a value of another type
  that the library converts (a numeric string, an \<open>int\<close> or a \<open>bool\<close> for the float \<open>score\<close>;
  a numeric string, a \<open>bool\<close> or a float without fractional part among the \<open>positions\<close>) is
  accepted.
\<close>

theorem search_rejects_malformed_result:
  assumes "http_get E \<lparr> req_url = base_url c @ ''/search'',
                         req_params = build_params q cats lang tr,
                         req_timeout = timeout c \<rparr> = Inr resp"
    and "200 \<le> status_code resp" and "status_code resp \<le> 299"
    and "json_loads E (resp_text resp) = Inr (JObj body)"
    and "map_of body ''results'' = Some (JArr rs)"
    and "JObj kv \<in> set rs"
    and "malformed_result E kv"
  shows "fst (search E c q cats lang tr) =
           Inl (Exn ValueError (''Error during search: '' @ validation_msg E (JObj body))
                  (Some (Exn ValidationError (validation_msg E (JObj body)) None)))
       \<and> (\<forall>kv'. (SearxngResult_validate E (JObj kv') = None) = malformed_result E kv')"
proof -
  have "SearxngResponse_init E (JObj body)
          = Inl (Exn ValidationError (validation_msg E (JObj body)) None)"
    using assms(5-7) by (rule init_malformed)
  from search_init_fails[OF assms(1-4) this] show ?thesis
    by (simp add: validate_None_iff)
qed

text \<open>
  The second of two results lacks \<open>engine\<close> (and more); then the second of two results
  has \<open>null\<close> for its \<open>score\<close>: nothing is returned.
\<close>

theorem search_rejects_malformed_result_witness:
  "fst (search
         (demo_env (Inr ok_response)
            (Inr (JObj [(''query'', JStr ''cats''), (''number_of_results'', JInt 2),
                        (''results'',
                         JArr [JObj (demo_hit ''Cat facts'' ''http://a'' ''x''),
                               JObj [(''url'', JStr ''http://b''), (''title'', JStr ''Cat pics''),
                                     (''content'', JStr ''short'')]])])))
         demo_client ''cats'' None None None)
     = Inl (Exn ValueError ''Error during search: validation error for SearxngResponse''
              (Some (Exn ValidationError ''validation error for SearxngResponse'' None)))
   \<and> fst (search
         (demo_env (Inr ok_response)
            (Inr (JObj [(''query'', JStr ''cats''), (''number_of_results'', JInt 2),
                        (''results'',
                         JArr [JObj (demo_hit ''Cat facts'' ''http://a'' ''x''),
                               JObj (dict_set ''score'' JNull
                                       (demo_hit ''Cat pics'' ''http://b'' ''short''))])])))
         demo_client ''cats'' None None None)
     = Inl (Exn ValueError ''Error during search: validation error for SearxngResponse''
              (Some (Exn ValidationError ''validation error for SearxngResponse'' None)))"
proof -
  let ?req = "\<lparr> req_url = base_url demo_client @ ''/search'',
                  req_params = build_params ''cats'' None None None,
                  req_timeout = timeout demo_client \<rparr>"
  let ?bad1 = "[(''url'', JStr ''http://b''), (''title'', JStr ''Cat pics''),
                (''content'', JStr ''short'')] :: (string \<times> int json) list"
  let ?bad2 = "dict_set ''score'' JNull (demo_hit ''Cat pics'' ''http://b'' ''short'')"
  let ?rs1 = "[JObj (demo_hit ''Cat facts'' ''http://a'' ''x''), JObj ?bad1]"
  let ?rs2 = "[JObj (demo_hit ''Cat facts'' ''http://a'' ''x''), JObj ?bad2]"
  let ?body1 = "[(''query'', JStr ''cats''), (''number_of_results'', JInt 2),
                 (''results'', JArr ?rs1)]"
  let ?body2 = "[(''query'', JStr ''cats''), (''number_of_results'', JInt 2),
                 (''results'', JArr ?rs2)]"
  let ?E1 = "demo_env (Inr ok_response) (Inr (JObj ?body1))"
  let ?E2 = "demo_env (Inr ok_response) (Inr (JObj ?body2))"
  have s1: "200 \<le> status_code ok_response" and s2: "status_code ok_response \<le> 299"
    by (simp_all add: ok_response_def)
  have g1: "http_get ?E1 ?req = Inr ok_response" by (simp add: demo_env_sel)
  have d1: "json_loads ?E1 (resp_text ok_response) = Inr (JObj ?body1)"
    by (simp add: demo_env_sel)
  have r1: "map_of ?body1 ''results'' = Some (JArr ?rs1)" by simp
  have m1: "JObj ?bad1 \<in> set ?rs1" by simp
  have b1: "malformed_result ?E1 ?bad1"
    by (simp add: malformed_result_def required_fields_def bad_field_def)
  have g2: "http_get ?E2 ?req = Inr ok_response" by (simp add: demo_env_sel)
  have d2: "json_loads ?E2 (resp_text ok_response) = Inr (JObj ?body2)"
    by (simp add: demo_env_sel)
  have r2: "map_of ?body2 ''results'' = Some (JArr ?rs2)" by simp
  have m2: "JObj ?bad2 \<in> set ?rs2" by simp
  have b2: "malformed_result ?E2 ?bad2"
    by (simp add: malformed_result_def required_fields_def bad_field_def demo_hit_def)
  from search_rejects_malformed_result[OF g1 s1 s2 d1 r1 m1 b1, THEN conjunct1]
       search_rejects_malformed_result[OF g2 s1 s2 d2 r2 m2 b2, THEN conjunct1]
  show ?thesis
    by (simp add: demo_env_def)
qed

text \<open>
  As the claim is worded, a result that carries a wrongly typed value fails the call. A
  result whose \<open>score\<close> is the string \<open>"1.5"\<close> and whose \<open>positions\<close> are the strings \<open>"1"\<close>
  and \<open>"3"\<close> does not: the library converts them, and the response is returned with the
  score \<open>1.5\<close> and the positions \<open>1\<close> and \<open>3\<close>.
\<close>

theorem search_rejects_malformed_result_counterexample:
  "map_of lax_hit ''score'' = Some (JStr ''1.5'')
   \<and> map_of lax_hit ''positions'' = Some (JArr [JStr ''1'', JStr ''3''])
   \<and> fst (search (demo_env (Inr ok_response) (Inr lax_body)) demo_client ''cats'' None None None)
     = Inr \<lparr> query = ''cats'', number_of_results = 1,
             results = [(demo_record ''Cat facts'' ''http://a'' ''x'')
                          \<lparr> positions := [1, 3], score := 150 \<rparr>] \<rparr>"
proof -
  have "SearxngResponse_init (demo_env (Inr ok_response) (Inr lax_body)) lax_body
      = Inr \<lparr> query = ''cats'', number_of_results = 1,
              results = [(demo_record ''Cat facts'' ''http://a'' ''x'')
                           \<lparr> positions := [1, 3], score := 150 \<rparr>] \<rparr>"
    by (simp add: SearxngResponse_init_def lax_body_def required_def lax_hit_valid)
  then have "fst (search (demo_env (Inr ok_response) (Inr lax_body)) demo_client ''cats'' None None None)
      = Inr \<lparr> query = ''cats'', number_of_results = 1,
              results = [(demo_record ''Cat facts'' ''http://a'' ''x'')
                           \<lparr> positions := [1, 3], score := 150 \<rparr>] \<rparr>"
    by (simp add: search_def demo_env_sel raise_for_status_def ok_response_def)
  moreover have "map_of lax_hit ''score'' = Some (JStr ''1.5'')"
    and "map_of lax_hit ''positions'' = Some (JArr [JStr ''1'', JStr ''3''])"
    by (simp_all add: lax_hit_def demo_hit_def)
  ultimately show ?thesis by simp
qed

text \<open>
  Claim C3. When the HTTP call raises (a timeout, a connection failure), when the response
  has a status outside 2xx, or when the body does not decode as JSON, \<open>search\<close> fails with
  one kind of failure, \<open>ValueError\<close>, whose message is \<open>"Error during search: "\<close> followed by
  the text of the underlying exception and whose cause is that exception; no response
  object is returned.
\<close>

theorem search_upstream_failure:
  assumes "req = \<lparr> req_url = base_url c @ ''/search'',
                   req_params = build_params q cats lang tr,
                   req_timeout = timeout c \<rparr>"
    and "http_get E req = Inl e
         \<or> (\<exists>resp. http_get E req = Inr resp
                \<and> \<not> (200 \<le> status_code resp \<and> status_code resp \<le> 299)
                \<and> e = Exn HTTPStatusError (status_msg E resp) None)
         \<or> (\<exists>resp. http_get E req = Inr resp
                \<and> 200 \<le> status_code resp \<and> status_code resp \<le> 299
                \<and> json_loads E (resp_text resp) = Inl e)"
  shows "fst (search E c q cats lang tr)
           = Inl (Exn ValueError (''Error during search: '' @ message e) (Some e))"
  using assms(2) unfolding assms(1)
proof (elim disjE exE conjE)
  assume "http_get E \<lparr> req_url = base_url c @ ''/search'',
                         req_params = build_params q cats lang tr,
                         req_timeout = timeout c \<rparr> = Inl e"
  then show ?thesis by (rule search_transport_raises)
next
  fix resp
  assume "http_get E \<lparr> req_url = base_url c @ ''/search'',
                         req_params = build_params q cats lang tr,
                         req_timeout = timeout c \<rparr> = Inr resp"
    and "\<not> (200 \<le> status_code resp \<and> status_code resp \<le> 299)"
    and "e = Exn HTTPStatusError (status_msg E resp) None"
  then show ?thesis using search_bad_status[of E c q cats lang tr resp] by simp
next
  fix resp
  assume "http_get E \<lparr> req_url = base_url c @ ''/search'',
                         req_params = build_params q cats lang tr,
                         req_timeout = timeout c \<rparr> = Inr resp"
    and "200 \<le> status_code resp" and "status_code resp \<le> 299"
    and "json_loads E (resp_text resp) = Inl e"
  then show ?thesis by (rule search_decode_fails)
qed

text \<open>A timeout, and a response with status 503.\<close>

theorem search_upstream_failure_witness:
  "fst (search (demo_env (Inl (Exn TimeoutException ''timed out'' None)) (Inr cats_body))
          demo_client ''cats'' None None None)
     = Inl (Exn ValueError ''Error during search: timed out''
              (Some (Exn TimeoutException ''timed out'' None)))
   \<and> fst (search (demo_env (Inr \<lparr> status_code = 503, resp_text = ''busy'' \<rparr>) (Inr cats_body))
          demo_client ''cats'' None None None)
     = Inl (Exn ValueError ''Error during search: HTTP status 503''
              (Some (Exn HTTPStatusError ''HTTP status 503'' None)))"
proof -
  let ?req = "\<lparr> req_url = base_url demo_client @ ''/search'',
                  req_params = build_params ''cats'' None None None,
                  req_timeout = timeout demo_client \<rparr>"
  let ?E1 = "demo_env (Inl (Exn TimeoutException ''timed out'' None)) (Inr cats_body)"
  let ?E2 = "demo_env (Inr \<lparr> status_code = 503, resp_text = ''busy'' \<rparr>) (Inr cats_body)"
  have h1: "http_get ?E1 ?req = Inl (Exn TimeoutException ''timed out'' None)
         \<or> (\<exists>resp. http_get ?E1 ?req = Inr resp
                \<and> \<not> (200 \<le> status_code resp \<and> status_code resp \<le> 299)
                \<and> Exn TimeoutException ''timed out'' None = Exn HTTPStatusError (status_msg ?E1 resp) None)
         \<or> (\<exists>resp. http_get ?E1 ?req = Inr resp
                \<and> 200 \<le> status_code resp \<and> status_code resp \<le> 299
                \<and> json_loads ?E1 (resp_text resp) = Inl (Exn TimeoutException ''timed out'' None))"
    by (simp add: demo_env_sel)
  have h2: "http_get ?E2 ?req = Inl (Exn HTTPStatusError (status_msg ?E2 \<lparr> status_code = 503, resp_text = ''busy'' \<rparr>) None)
         \<or> (\<exists>resp. http_get ?E2 ?req = Inr resp
                \<and> \<not> (200 \<le> status_code resp \<and> status_code resp \<le> 299)
                \<and> Exn HTTPStatusError (status_msg ?E2 \<lparr> status_code = 503, resp_text = ''busy'' \<rparr>) None
                    = Exn HTTPStatusError (status_msg ?E2 resp) None)
         \<or> (\<exists>resp. http_get ?E2 ?req = Inr resp
                \<and> 200 \<le> status_code resp \<and> status_code resp \<le> 299
                \<and> json_loads ?E2 (resp_text resp)
                    = Inl (Exn HTTPStatusError (status_msg ?E2 \<lparr> status_code = 503, resp_text = ''busy'' \<rparr>) None))"
    by (simp add: demo_env_sel)
  have m: "status_msg ?E2 \<lparr> status_code = 503, resp_text = ''busy'' \<rparr> = ''HTTP status 503''"
    by (simp add: demo_env_def str_int_def str_nat.simps digit_def)
  from search_upstream_failure[OF refl h1] search_upstream_failure[OF refl h2] m
  show ?thesis by simp
qed

text \<open>
  Claim C10. With \<open>categories\<close> given as an empty list, the request has no \<open>categories\<close>
  parameter, and the call is the same as one without \<open>categories\<close>: same result, same
  events, same request, for the client and for the tool.
\<close>

theorem search_empty_categories:
  "search E c q (Some []) lang tr = search E c q None lang tr
   \<and> map_of (build_params q (Some []) lang tr) ''categories'' = None
   \<and> requests (snd (search E c q (Some []) lang tr)) = requests (snd (search E c q None lang tr))
   \<and> web_search E c ctx q n (Some []) lang trg fmt = web_search E c ctx q n None lang trg fmt"
proof -
  have s: "search E c q (Some []) lang t = search E c q None lang t" for t
    by (simp add: search_def build_params_empty_categories)
  have "map_of (build_params q (Some []) lang tr) ''categories'' = None"
    by (simp add: build_params_categories)
  moreover have "web_search E c ctx q n (Some []) lang trg fmt = web_search E c ctx q n None lang trg fmt"
    by (simp add: web_search_def s)
  ultimately show ?thesis using s by simp
qed

text \<open>The request of a search with \<open>categories=[]\<close>.\<close>

theorem search_empty_categories_witness:
  "requests (snd (search cats_env demo_client ''cats'' (Some []) None None))
     = [\<lparr> req_url = ''http://localhost:8080/search'',
          req_params = [(''q'', ''cats''), (''format'', ''json'')], req_timeout = 10 \<rparr>]"
proof -
  have "requests (snd (search cats_env demo_client ''cats'' None None None))
     = [\<lparr> req_url = ''http://localhost:8080/search'',
          req_params = [(''q'', ''cats''), (''format'', ''json'')], req_timeout = 10 \<rparr>]"
    by (simp add: cats_search build_params_def)
  with search_empty_categories[of cats_env demo_client "''cats''" None None]
  show ?thesis by simp
qed

text \<open>Every key of the request parameters occurs once.\<close>

lemma build_params_distinct: "distinct (map fst (build_params q cats lang tr))"
  by (simp add: build_params_def Let_def split: option.splits)

text \<open>
  Claim C7, as amended. Every call of \<open>search\<close> issues exactly one GET, to
  \<open>{base_url}/search\<close>, whose parameters always include \<open>format=json\<close>, whatever output
  format the caller of the tool asked for (the tool issues the same request for \<open>text\<close> and
  for \<open>json\<close>). A \<open>categories\<close> list that is present and not empty is joined with commas into
  the single parameter \<open>categories\<close>; a \<open>language\<close> that is present and not the empty string
  is passed verbatim as the parameter \<open>language\<close>, unvalidated. A \<open>categories\<close> that is
  absent or the empty list, and a \<open>language\<close> that is absent or the empty string, give no
  parameter.
\<close>

theorem search_request_params:
  "requests (snd (search E c q cats lang tr))
     = [\<lparr> req_url = base_url c @ ''/search'', req_params = build_params q cats lang tr,
          req_timeout = timeout c \<rparr>]
   \<and> map_of (build_params q cats lang tr) ''format'' = Some ''json''
   \<and> distinct (map fst (build_params q cats lang tr))
   \<and> (cats = Some cs \<and> cs \<noteq> []
        \<longrightarrow> map_of (build_params q cats lang tr) ''categories'' = Some (str_join '','' cs))
   \<and> (lang = Some l \<and> l \<noteq> []
        \<longrightarrow> map_of (build_params q cats lang tr) ''language'' = Some l)
   \<and> (0 < n \<longrightarrow> requests (snd (web_search E c ctx q n cats lang trg Text))
                  = requests (snd (web_search E c ctx q n cats lang trg Json)))
   \<and> (cats = None \<or> cats = Some []
        \<longrightarrow> map_of (build_params q cats lang tr) ''categories'' = None)
   \<and> (lang = None \<or> lang = Some []
        \<longrightarrow> map_of (build_params q cats lang tr) ''language'' = None)"
  by (auto simp add: search_requests build_params_format build_params_distinct
      build_params_categories build_params_language web_search_requests)

text \<open>Two categories and a language.\<close>

theorem search_request_params_witness:
  "requests (snd (search cats_env demo_client ''cats'' (Some [''general'', ''news'']) (Some ''en'') None))
     = [\<lparr> req_url = ''http://localhost:8080/search'',
          req_params = [(''q'', ''cats''), (''format'', ''json''),
                        (''categories'', ''general,news''), (''language'', ''en'')],
          req_timeout = 10 \<rparr>]"
proof -
  have "build_params ''cats'' (Some [''general'', ''news'']) (Some ''en'') None
      = [(''q'', ''cats''), (''format'', ''json''),
         (''categories'', ''general,news''), (''language'', ''en'')]"
    by (simp add: build_params_def Let_def)
  with search_request_params[of cats_env demo_client "''cats''" "Some [''general'', ''news'']"
      "Some ''en''" None "[''general'', ''news'']" "''en''" 1 True None]
  show ?thesis
    by (simp add: demo_client_def SearxNGClient_init_def rstrip_slash_def)
qed

text \<open>
  As the claim is worded, a \<open>categories\<close> list or a \<open>language\<close> that is present always
  reaches the request. It does not when it is present and empty: \<open>if categories:\<close> and
  \<open>if language:\<close> test truthiness, and the request then has neither parameter.
\<close>

theorem search_request_params_counterexample:
  "map_of (build_params ''cats'' (Some []) (Some '''') None) ''categories''
     \<noteq> Some (str_join '','' [])
   \<and> map_of (build_params ''cats'' (Some []) (Some '''') None) ''language'' \<noteq> Some ''''
   \<and> requests (snd (search cats_env demo_client ''cats'' (Some []) (Some '''') None))
     = [\<lparr> req_url = ''http://localhost:8080/search'',
          req_params = [(''q'', ''cats''), (''format'', ''json'')], req_timeout = 10 \<rparr>]"
  by (simp add: build_params_categories build_params_language cats_search)
     (simp add: build_params_def Let_def)

text \<open>
  Claim C6, as amended. \<open>search\<close> does not validate \<open>time_range\<close>: any token that is not
  the empty string is sent upstream verbatim as the parameter \<open>time_range\<close> of the one GET
  the call issues, and the empty token is treated as an absent one. A token outside
  \<open>day\<close>, \<open>week\<close>, \<open>month\<close>, \<open>year\<close> is excluded only by the signature of the tool, whose
  \<open>time_range\<close> is of type \<open>Literal["day", "week", "month", "year"] | None\<close>: the tool passes
  one of these four tokens to the client, or none.
\<close>

theorem search_time_range_passthrough:
  "(t \<noteq> []
      \<longrightarrow> map_of (build_params q cats lang (Some t)) ''time_range'' = Some t
        \<and> requests (snd (search E c q cats lang (Some t)))
            = [\<lparr> req_url = base_url c @ ''/search'',
                 req_params = build_params q cats lang (Some t), req_timeout = timeout c \<rparr>])
   \<and> search E c q cats lang (Some []) = search E c q cats lang None
   \<and> time_range_token trg \<in> {''day'', ''week'', ''month'', ''year''}
   \<and> (0 < n
      \<longrightarrow> requests (snd (web_search E c ctx q n cats lang (Some trg) fmt))
            = [\<lparr> req_url = base_url c @ ''/search'',
                 req_params = build_params q cats lang (Some (time_range_token trg)),
                 req_timeout = timeout c \<rparr>])"
proof -
  have "time_range_token trg \<in> {''day'', ''week'', ''month'', ''year''}"
    by (cases trg) simp_all
  moreover have "search E c q cats lang (Some []) = search E c q cats lang None"
    by (simp add: search_def build_params_empty_time_range)
  ultimately show ?thesis
    by (simp add: build_params_time_range search_requests web_search_requests)
qed

text \<open>The token \<open>week\<close>, given to the client and given to the tool.\<close>

theorem search_time_range_passthrough_witness:
  "map_of (build_params ''cats'' None None (Some ''week'')) ''time_range'' = Some ''week''
   \<and> requests (snd (web_search cats_env demo_client False ''cats'' 3 None None (Some Week) Json))
       = [\<lparr> req_url = ''http://localhost:8080/search'',
            req_params = [(''q'', ''cats''), (''format'', ''json''), (''time_range'', ''week'')],
            req_timeout = 10 \<rparr>]"
proof -
  have "build_params ''cats'' None None (Some ''week'')
      = [(''q'', ''cats''), (''format'', ''json''), (''time_range'', ''week'')]"
    by (simp add: build_params_def Let_def)
  with search_time_range_passthrough[of "''week''" "''cats''" None None cats_env demo_client
      Week 3 False Json]
  show ?thesis
    by (simp add: demo_client_def SearxNGClient_init_def rstrip_slash_def)
qed

text \<open>
  As the claim is worded, a call with an unrecognised token fails before any network
  call. The client called with the token \<open>decade\<close> issues the request, with
  \<open>time_range=decade\<close>, and returns the response.
\<close>

theorem search_time_range_counterexample:
  "''decade'' \<notin> {''day'', ''week'', ''month'', ''year''}
   \<and> search cats_env demo_client ''cats'' None None (Some ''decade'')
     = (Inr cats_response,
        [HttpGet \<lparr> req_url = ''http://localhost:8080/search'',
                    req_params = [(''q'', ''cats''), (''format'', ''json''),
                                  (''time_range'', ''decade'')],
                    req_timeout = 10 \<rparr>,
         LogInfo ''Response: {...}...''])"
  by (simp add: cats_search) (simp add: build_params_def Let_def)

section \<open>The alternate formatter, proved\<close>

text \<open>On values it can format, the loop of the formatter produces the worded entries.\<close>

lemma py_str_has_text: "has_text R v \<Longrightarrow> py_str R v = Inr (text_of R v)"
  by (cases v) (auto simp: text_of_def int_str_def split: sum.splits)

lemma get_or_text:
  "field_has_text R kv k \<Longrightarrow> py_str R (get_or kv k d) = Inr (field_or R kv k d)"
  by (cases "map_of kv k") (simp_all add: field_has_text_def get_or_def field_or_def py_str_has_text)

lemma fmt_2f_formattable:
  "formattable R s \<Longrightarrow> fmt_2f R s = Inr (two_decimals R s)"
proof (cases s)
  case (JBool b)
  assume "formattable R s"
  with JBool show ?thesis
    by (cases b) (auto simp: two_decimals_def split: option.splits)
qed (auto simp: two_decimals_def split: option.splits)

lemma result_text_well_typed:
  "well_typed_result R r \<Longrightarrow> result_text R i r = Inr (loose_entry R i r)"
proof (cases r)
  case (JObj kv)
  assume wt: "well_typed_result R r"
  with JObj have t: "field_has_text R kv ''title''" "field_has_text R kv ''url''"
      "field_has_text R kv ''content''" "field_has_text R kv ''publishedDate''"
    and s: "case map_of kv ''score'' of None \<Rightarrow> True | Some s \<Rightarrow> formattable R s"
    by simp_all
  have d: "py_str R x = Inr (text_of R x)" if "map_of kv ''publishedDate'' = Some x" for x
    using t(4) that by (simp add: field_has_text_def py_str_has_text)
  show ?thesis
  proof (cases "map_of kv ''publishedDate''")
    case None
    with s JObj show ?thesis
      by (cases "map_of kv ''score''")
         (simp_all add: on_ok_def get_or_text[OF t(1)] get_or_text[OF t(2)] get_or_text[OF t(3)]
            fmt_2f_formattable)
  next
    case (Some x)
    with s JObj d[OF Some] show ?thesis
      by (cases "map_of kv ''score''")
         (simp_all add: on_ok_def get_or_text[OF t(1)] get_or_text[OF t(2)] get_or_text[OF t(3)]
            fmt_2f_formattable)
  qed
qed simp_all

lemma results_loop_eq:
  "list_all (well_typed_result R) rs \<Longrightarrow>
   results_loop R i rs acc = Inr (acc @ map (\<lambda>k. loose_entry R (i + k) (rs ! k)) [0..<length rs])"
proof (induction rs arbitrary: i acc)
  case Nil
  then show ?case by simp
next
  case (Cons r rs)
  then show ?case
    by (simp add: on_ok_def result_text_well_typed map_upt_Suc del: upt_Suc)
qed

lemma search_info_well_typed:
  assumes "well_typed_header R data"
  shows "search_info_lines R data = Inr (loose_header R data)"
proof -
  have q: "(case map_of data ''query'' of
              Some v \<Rightarrow> on_ok (py_str R v) (\<lambda>s. Inr [''Query: '' @ s])
            | None \<Rightarrow> Inr [])
         = Inr (case map_of data ''query'' of None \<Rightarrow> [] | Some v \<Rightarrow> [''Query: '' @ text_of R v])"
    using assms
    by (cases "map_of data ''query''")
       (simp_all add: well_typed_header_def field_has_text_def on_ok_def py_str_has_text)
  show ?thesis
  proof (cases "map_of data ''number_of_results''")
    case None
    then show ?thesis
      unfolding search_info_lines_def q by (simp add: on_ok_def loose_header_def)
  next
    case (Some n)
    with assms have c: "comparable n" and p: "py_gt0 R n = Inr True \<Longrightarrow> has_text R n"
      by (simp_all add: well_typed_header_def)
    from c obtain b where b: "py_gt0 R n = Inr b" by (cases n) simp_all
    show ?thesis
    proof (cases b)
      case True
      with b p have "py_str R n = Inr (text_of R n)" by (simp add: py_str_has_text)
      with Some b True show ?thesis
        unfolding search_info_lines_def q by (simp add: on_ok_def loose_header_def)
    next
      case False
      with Some b show ?thesis
        unfolding search_info_lines_def q by (simp add: on_ok_def loose_header_def)
    qed
  qed
qed

lemma format_results_none:
  "map_of data ''results'' = None \<or> map_of data ''results'' = Some (JArr []) \<Longrightarrow>
   format_results R data = Inr ''No results found.''"
  by (auto simp: format_results_def)

lemma format_results_some:
  assumes "map_of data ''results'' = Some (JArr rs)" and "rs \<noteq> []"
    and "well_typed_header R data" and "list_all (well_typed_result R) rs"
  shows "format_results R data =
     Inr (str_join ''\<newline>'' (loose_header R data) @ ''\<newline>\<newline>''
          @ str_join ''\<newline>\<newline>'' (map (\<lambda>k. loose_entry R (k + 1) (rs ! k)) [0..<length rs]))"
  using assms(1,2)
  by (simp add: format_results_def on_ok_def search_info_well_typed[OF assms(3)]
      results_loop_eq[OF assms(4)])

text \<open>
  Claim C9, as amended. When the mapping has no \<open>results\<close> key or an empty \<open>results\<close> list,
  \<open>format_results\<close> returns exactly \<open>"No results found."\<close>. Otherwise the output is the
  header, a blank line, and the entries separated by blank lines, provided that
  \<^item> \<open>results\<close> is a list of mappings;
  \<^item> \<open>query\<close> and, in each result, \<open>title\<close>, \<open>url\<close>, \<open>content\<close> and \<open>publishedDate\<close>, when
    present, have a text: any value has one, unless it is an \<open>int\<close> of more digits than
    the interpreter's limit (4300 by default) or a list or dict whose \<open>str()\<close> raises;
  \<^item> \<open>number_of_results\<close>, when present, is an \<open>int\<close>, a \<open>bool\<close> or a float, and has a text
    when it is positive;
  \<^item> every \<open>score\<close> that is present is a float, or an \<open>int\<close> or \<open>bool\<close> that \<open>float()\<close>
    converts (an \<open>int\<close> beyond the range of floats raises \<open>OverflowError\<close>).
  The header has the line \<open>"Query: ..."\<close> when \<open>query\<close> is present and the line
  \<open>"Found approximately N results"\<close> only when \<open>number_of_results\<close> is present and positive.
  The entry at 1-based position \<open>i\<close> is \<open>"{i}. {title}"\<close>, \<open>"   URL: {url}"\<close> and
  \<open>"   {content}"\<close>, with \<open>"No title"\<close>, \<open>"No URL"\<close> and \<open>"No description"\<close> for absent keys,
  followed by a line \<open>"   Date: ..."\<close> only when \<open>publishedDate\<close> is present and a line
  \<open>"   Score: ..."\<close>, the score formatted with \<open>.2f\<close>, only when \<open>score\<close> is present.
\<close>

theorem format_results_output:
  "(map_of data ''results'' = None \<or> map_of data ''results'' = Some (JArr [])
      \<longrightarrow> format_results R data = Inr ''No results found.'')
   \<and> (map_of data ''results'' = Some (JArr rs) \<and> rs \<noteq> []
        \<and> well_typed_header R data \<and> list_all (well_typed_result R) rs
      \<longrightarrow> format_results R data =
            Inr (str_join ''\<newline>'' (loose_header R data) @ ''\<newline>\<newline>''
                 @ str_join ''\<newline>\<newline>''
                     (map (\<lambda>k. loose_entry R (k + 1) (rs ! k)) [0..<length rs])))"
  using format_results_none[of data R] format_results_some[of data rs R] by blast

text \<open>A mapping with a full result and an empty one, and a mapping without results.\<close>

theorem format_results_output_witness:
  "format_results demo_runtime
     [(''query'', JStr ''cats''), (''number_of_results'', JInt 2),
      (''results'',
       JArr [JObj [(''title'', JStr ''Cat facts''), (''url'', JStr ''http://a''),
                   (''content'', JStr ''x''), (''publishedDate'', JStr ''2024-01-01''),
                   (''score'', JFloat 150)],
             JObj []])]
   = Inr (''Query: cats\<newline>Found approximately 2 results\<newline>\<newline>''
          @ ''1. Cat facts\<newline>   URL: http://a\<newline>   x\<newline>   Date: 2024-01-01\<newline>   Score: 1.50''
          @ ''\<newline>\<newline>2. No title\<newline>   URL: No URL\<newline>   No description'')
   \<and> format_results demo_runtime [(''query'', JStr ''cats'')] = Inr ''No results found.''"
proof -
  let ?rs = "[JObj [(''title'', JStr ''Cat facts''), (''url'', JStr ''http://a''),
                   (''content'', JStr ''x''), (''publishedDate'', JStr ''2024-01-01''),
                   (''score'', JFloat 150)],
             JObj []] :: int json list"
  let ?data = "[(''query'', JStr ''cats''), (''number_of_results'', JInt 2),
                (''results'', JArr ?rs)]"
  have l: "\<not> over_digit_limit demo_runtime 2"
    by (simp add: over_digit_limit_def demo_runtime_def str_nat.simps)
  have a: "map_of ?data ''results'' = Some (JArr ?rs) \<and> ?rs \<noteq> []
        \<and> well_typed_header demo_runtime ?data \<and> list_all (well_typed_result demo_runtime) ?rs"
    by (simp add: well_typed_header_def field_has_text_def l)
  have b: "map_of [(''query'', JStr ''cats'' :: int json)] ''results'' = None
        \<or> map_of [(''query'', JStr ''cats'' :: int json)] ''results'' = Some (JArr [])"
    by simp
  from format_results_output[of ?data demo_runtime ?rs, THEN conjunct2, rule_format, OF a]
       format_results_output[of "[(''query'', JStr ''cats'')]" demo_runtime "[]",
         THEN conjunct1, rule_format, OF b]
  show ?thesis
    by (simp add: loose_header_def field_or_def two_decimals_def text_of_def int_str_def l
        str_int_def str_nat.simps digit_def)
       (simp add: demo_runtime_def fixed2_def str_nat.simps digit_def)
qed

text \<open>
  As the claim is worded, every mapping is formatted. A result whose \<open>score\<close> key is
  present with the value \<open>None\<close> is not: \<open>f"{None:.2f}"\<close> raises \<open>TypeError\<close>, and the
  formatter returns nothing.
\<close>

theorem format_results_counterexample:
  "format_results demo_runtime
     [(''results'', JArr [JObj [(''title'', JStr ''Cat facts''), (''score'', JNull)]])]
   = Inl TypeError"
  by (simp add: format_results_def search_info_lines_def on_ok_def get_or_def)

end
